theory Spec2Isabelle
  imports Complex_Main
begin

section \<open>Arithmetic of the source\<close>

text \<open>
  The two scripts \<^verbatim>\<open>q1.py\<close> (air-standard Otto cycle) and \<^verbatim>\<open>q2.py\<close> (approximate
  Rankine cycle) compute with Python numbers. The embedding takes them as real numbers:
  the rounding, overflow and underflow of IEEE doubles are not part of the model, every
  statement below is one of exact arithmetic. What Python does beyond computing a value
  is explicit: a division by zero raises \<^verbatim>\<open>ZeroDivisionError\<close>, and so does a zero base
  under a negative exponent; a negative base under a non-integral exponent makes
  \<^verbatim>\<open>**\<close> leave the reals (Python 3 answers with a complex number), where the model
  stops with \<open>ComplexValue\<close>. The scripts call the functions on Python integers and
  floats, and on the floats of a \<^verbatim>\<open>linspace\<close> between 3 and 12, where nothing raises.
\<close>

datatype py_error = ZeroDivisionError | ComplexValue

definition bind_result :: "py_error + 'a \<Rightarrow> ('a \<Rightarrow> py_error + 'b) \<Rightarrow> py_error + 'b" where
  "bind_result m f = (case m of Inl e \<Rightarrow> Inl e | Inr v \<Rightarrow> f v)"

definition py_div :: "real \<Rightarrow> real \<Rightarrow> py_error + real" where
  \<comment> \<open>\<^verbatim>\<open>a / b\<close>\<close>
  "py_div a b = (if b = 0 then Inl ZeroDivisionError else Inr (a / b))"

definition py_pow :: "real \<Rightarrow> real \<Rightarrow> py_error + real" where
  \<comment> \<open>\<^verbatim>\<open>x ** y\<close>; \<^verbatim>\<open>x ** 0\<close> is 1 for every \<open>x\<close>\<close>
  "py_pow x y =
     (if y = 0 then Inr 1
      else if 0 < x then Inr (x powr y)
      else if x = 0 then (if 0 < y then Inr 0 else Inl ZeroDivisionError)
      else if of_int \<lfloor>y\<rfloor> = y then Inr (x powi \<lfloor>y\<rfloor>)
      else Inl ComplexValue)"

section \<open>The Otto cycle (\<^verbatim>\<open>q1.py\<close>)\<close>

definition upper_temp_lim :: real where
  "upper_temp_lim = 2400"

definition R_air :: real where
  "R_air = 287"

text \<open>
  The two dictionaries that \<^verbatim>\<open>otto_cycle\<close> returns, with their keys as field names.
\<close>

record otto_states =
  T1 :: real
  P1 :: real
  T2 :: real
  P2 :: real
  T3 :: real
  P3 :: real
  T4 :: real
  P4 :: real

record otto_result =
  states :: otto_states
  q_in :: real
  q_out :: real
  w_net :: real
  eta :: real
  eta_theory :: real
  mep :: real

text \<open>
  Line 36, \<^verbatim>\<open>eta_theory = 1 - 1 / (r ** (gamma - 1))\<close>, named so that it can be spoken
  of by itself.
\<close>

definition eta_theory_line :: "real \<Rightarrow> real \<Rightarrow> py_error + real" where
  "eta_theory_line r gamma =
     bind_result (py_pow r (gamma - 1)) (\<lambda>p.
     bind_result (py_div 1 p) (\<lambda>q.
     Inr (1 - q)))"

text \<open>
  \<^verbatim>\<open>otto_cycle(T1, P1, r, T3, gamma)\<close>, statement by statement. The parameters are
  written in lower case, the names in upper case being the keys of the result.
\<close>

definition otto_cycle :: "real \<Rightarrow> real \<Rightarrow> real \<Rightarrow> real \<Rightarrow> real \<Rightarrow> py_error + otto_result" where
  "otto_cycle t1 p1 r t3 gamma =
     (let R = R_air in
      bind_result (py_div R (gamma - 1)) (\<lambda>Cv.
      let Cp = Cv * gamma in
      bind_result (py_pow r (gamma - 1)) (\<lambda>a.
      let t2 = t1 * a in
      bind_result (py_pow r gamma) (\<lambda>b.
      let p2 = p1 * b in
      bind_result (py_div t3 t2) (\<lambda>c.
      let p3 = p2 * c in
      bind_result (py_pow r (1 - gamma)) (\<lambda>d.
      let t4 = t3 * d in
      bind_result (py_div t4 t3) (\<lambda>e.
      let p4 = p3 * e;
          qin = Cv * (t3 - t2);
          qout = Cv * (t4 - t1);
          wnet = qin - qout in
      bind_result (py_div qout qin) (\<lambda>f.
      let eta' = 1 - f in
      bind_result (eta_theory_line r gamma) (\<lambda>eta_th.
      bind_result (py_div (R * t1) p1) (\<lambda>v1.
      bind_result (py_div v1 r) (\<lambda>v2.
      bind_result (py_div wnet (v1 - v2)) (\<lambda>mep'.
      Inr \<lparr>states = \<lparr>T1 = t1, P1 = p1, T2 = t2, P2 = p2, T3 = t3, P3 = p3,
                        T4 = t4, P4 = p4\<rparr>,
           q_in = qin, q_out = qout, w_net = wnet,
           eta = eta', eta_theory = eta_th, mep = mep'\<rparr>))))))))))))"

text \<open>
  The main evaluation of the script, \<^verbatim>\<open>otto = otto_cycle(r=r_main, T3=upper_temp_lim)\<close>,
  the other parameters at their defaults \<^verbatim>\<open>T1=300.0, P1=101325.0, gamma=1.4\<close>.
\<close>

definition r_main :: real where
  "r_main = 6"

definition otto :: "py_error + otto_result" where
  "otto = otto_cycle 300 101325 r_main upper_temp_lim 1.4"


section \<open>The approximate Rankine cycle (\<^verbatim>\<open>q2.py\<close>)\<close>

definition mass_flowrate :: real where
  "mass_flowrate = 48"

definition P_low :: real where
  "P_low = 50"

definition P_high_list :: "real list" where
  "P_high_list = [3000, 4000, 5000]"

definition T_high :: real where
  "T_high = 400 + 273.15"

definition cp_liquid :: real where
  "cp_liquid = 4.18"

text \<open>
  \<^verbatim>\<open>approximate_rankine(P_high_kPa)\<close> returns the triple
  \<^verbatim>\<open>(efficiency, net_power, (h1, h2, h3, h4))\<close>. The divisions by the literal 1000 cannot
  fail; the one by \<^verbatim>\<open>heat_added\<close> can.
\<close>

definition approximate_rankine ::
  "real \<Rightarrow> py_error + (real \<times> real \<times> (real \<times> real \<times> real \<times> real))" where
  "approximate_rankine P_high_kPa =
     (let h1 = 340;
          v1 = 0.001;
          pump_work = v1 * (P_high_kPa - P_low);
          h2 = h1 + pump_work;
          h_g = 2800 + 0.1 * (P_high_kPa - 3000) / 1000 * 100;
          h3 = h_g + cp_liquid * (T_high - 473.15) / 1000 * 100;
          h4 = h3 - 0.25 * (h3 - h1);
          turbine_work = h3 - h4;
          pump_work = h2 - h1;
          net_work = turbine_work - pump_work;
          heat_added = h3 - h2 in
      bind_result (py_div net_work heat_added) (\<lambda>efficiency.
      let net_power = net_work * mass_flowrate in
      Inr (efficiency, net_power, (h1, h2, h3, h4))))"

section \<open>Evaluating the model\<close>

lemma py_pow_pos: "0 < x \<Longrightarrow> py_pow x y = Inr (x powr y)"
  by (simp add: py_pow_def)

lemma bind_result_Inr [simp]: "bind_result (Inr v) f = f v"
  by (simp add: bind_result_def)

lemma bind_result_Inl [simp]: "bind_result (Inl e) f = Inl e"
  by (simp add: bind_result_def)

lemma bind_result_eq_Inr:
  "bind_result m f = Inr y \<longleftrightarrow> (\<exists>v. m = Inr v \<and> f v = Inr y)"
  by (cases m) simp_all

lemma eta_theory_line_pos:
  "0 < r \<Longrightarrow> eta_theory_line r gamma = Inr (1 - 1 / r powr (gamma - 1))"
  by (simp add: eta_theory_line_def py_pow_pos py_div_def)

lemma otto_cycle_pos:
  assumes "0 < r"
  shows "otto_cycle t1 p1 r t3 gamma =
    (if gamma = 1 \<or> t1 = 0 \<or> t3 = 0 \<or> t3 = t1 * r powr (gamma - 1) \<or> p1 = 0 \<or> r = 1
     then Inl ZeroDivisionError
     else Inr
     \<lparr>states = \<lparr>T1 = t1, P1 = p1, T2 = t1 * r powr (gamma - 1), P2 = p1 * r powr gamma,
                 T3 = t3, P3 = p1 * r powr gamma * (t3 / (t1 * r powr (gamma - 1))),
                 T4 = t3 * r powr (1 - gamma),
                 P4 = p1 * r powr gamma * (t3 / (t1 * r powr (gamma - 1)))
                      * (t3 * r powr (1 - gamma) / t3)\<rparr>,
      q_in = R_air / (gamma - 1) * (t3 - t1 * r powr (gamma - 1)),
      q_out = R_air / (gamma - 1) * (t3 * r powr (1 - gamma) - t1),
      w_net = R_air / (gamma - 1) * (t3 - t1 * r powr (gamma - 1))
              - R_air / (gamma - 1) * (t3 * r powr (1 - gamma) - t1),
      eta = 1 - R_air / (gamma - 1) * (t3 * r powr (1 - gamma) - t1)
                / (R_air / (gamma - 1) * (t3 - t1 * r powr (gamma - 1))),
      eta_theory = 1 - 1 / r powr (gamma - 1),
      mep = (R_air / (gamma - 1) * (t3 - t1 * r powr (gamma - 1))
              - R_air / (gamma - 1) * (t3 * r powr (1 - gamma) - t1))
            / (R_air * t1 / p1 - R_air * t1 / p1 / r)\<rparr>)"
proof -
  have R: "R_air \<noteq> 0" by (simp add: R_air_def)
  have v: "R_air * t1 / p1 - R_air * t1 / p1 / r = 0 \<longleftrightarrow> t1 = 0 \<or> r = 1" if "p1 \<noteq> 0"
    using that assms R by (simp add: field_simps)
  show ?thesis
    using assms R v
    by (simp add: otto_cycle_def Let_def py_pow_pos py_div_def eta_theory_line_pos)
qed

lemma otto_cycle_eta_theory_line:
  "otto_cycle t1 p1 r t3 gamma = Inr res \<Longrightarrow> eta_theory_line r gamma = Inr (eta_theory res)"
  by (auto simp: otto_cycle_def Let_def bind_result_eq_Inr)

lemma powr_below_base: "1 < r \<Longrightarrow> 0 < y \<Longrightarrow> y < 1 \<Longrightarrow> r powr y < (r::real)"
  using powr_less_mono [of y 1 r] by simp

lemma six_powr_bounds: "2.04765 < (6::real) powr 0.4" "(6::real) powr 0.4 < 2.04768"
proof -
  define x :: real where "x = 6 powr 0.4"
  have pos: "0 < x" by (simp add: x_def)
  have "x ^ 5 = x powr 5" using pos by simp
  also have "\<dots> = 6 powr 2" by (simp add: x_def powr_powr)
  finally have x5: "x ^ 5 = 36" by simp
  have "\<not> x \<le> 2.04765"
  proof
    assume "x \<le> 2.04765"
    then have "x ^ 5 \<le> 2.04765 ^ 5" using pos by (intro power_mono) simp_all
    then show False by (simp add: x5 power_divide)
  qed
  moreover have "\<not> 2.04768 \<le> x"
  proof
    assume "2.04768 \<le> x"
    then have "2.04768 ^ 5 \<le> x ^ 5" by (intro power_mono) simp_all
    then show False by (simp add: x5 power_divide)
  qed
  ultimately show "2.04765 < (6::real) powr 0.4" "(6::real) powr 0.4 < 2.04768"
    by (simp_all add: x_def)
qed

lemma approximate_rankine_eval:
  "approximate_rankine P =
     (if 2513.65 + 0.009 * P = 0 then Inl ZeroDivisionError
      else Inr ((628.45 + 0.0015 * P) / (2513.65 + 0.009 * P),
                (628.45 + 0.0015 * P) * 48,
                (340, 340 + 0.001 * (P - 50), 2853.6 + 0.01 * P, 2225.2 + 0.0075 * P)))"
  by (simp add: approximate_rankine_def Let_def py_div_def P_low_def T_high_def
      cp_liquid_def mass_flowrate_def field_simps)

lemma approximate_rankine_sweep:
  "approximate_rankine 3000 = Inr (12659 / 50813, 151908 / 5, (340, 6859 / 20, 14418 / 5, 22477 / 10))"
  "approximate_rankine 4000 = Inr (12689 / 50993, 152268 / 5, (340, 6879 / 20, 14468 / 5, 11276 / 5))"
  "approximate_rankine 5000 = Inr (12719 / 51173, 152628 / 5, (340, 6899 / 20, 14518 / 5, 22627 / 10))"
  by (simp_all add: approximate_rankine_eval)

lemma powr_one_minus: "0 < r \<Longrightarrow> r powr (1 - g) = 1 / r powr (g - 1)" for r :: real
  using powr_minus_divide [of r "g - 1"] by simp

lemma otto_defaults_return:
  "1 < r \<Longrightarrow> r \<le> 8 \<Longrightarrow> \<exists>res. otto_cycle 300 101325 r 2400 1.4 = Inr res"
proof -
  assume r: "1 < r" "r \<le> 8"
  have "r powr 0.4 < r" using r by (intro powr_below_base) simp_all
  then have "300 * r powr 0.4 < 2400" using r by simp
  then show ?thesis using r by (simp add: otto_cycle_pos)
qed

lemma otto_main_value:
  "\<exists>res. otto = Inr res \<and> T2 (states res) = 300 * 6 powr 0.4 \<and>
         eta_theory res = 1 - 1 / 6 powr 0.4"
proof -
  have "300 * 6 powr 0.4 < (2400::real)" using six_powr_bounds(2) by simp
  then show ?thesis
    by (simp add: otto_def r_main_def upper_temp_lim_def otto_cycle_pos)
qed

section \<open>The two efficiencies of the Otto cycle\<close>



section \<open>The main evaluation\<close>

text \<open>
  At the defaults the temperature after compression is \<open>300 * 6^0.4\<close>, which is below
  614.31: it is not within half a kelvin of 614.95.
\<close>

theorem otto_main_T2_not_614_95:
  "\<exists>res. otto = Inr res \<and> \<not> \<bar>T2 (states res) - 614.95\<bar> \<le> 0.5"
proof -
  from otto_main_value obtain res where
    res: "otto = Inr res" "T2 (states res) = 300 * 6 powr 0.4" by blast
  have "T2 (states res) < 614.31" using six_powr_bounds(2) by (simp add: res(2))
  then have "\<not> \<bar>T2 (states res) - 614.95\<bar> \<le> 0.5" by simp
  with res(1) show ?thesis by blast
qed

text \<open>
  C3, as the code has it: \<^verbatim>\<open>otto_cycle\<close> at the default inputs \<open>T1 = 300\<close>,
  \<open>P1 = 101325\<close>, \<open>r = 6\<close>, \<open>T3 = 2400\<close>, \<open>gamma = 1.4\<close> returns \<open>T2\<close> equal to 614.30
  to two decimals, and \<open>eta_theory = 1 - 6^(-0.4)\<close>, equal to 0.5116 to four decimals.
\<close>

theorem otto_main_T2_eta_theory:
  "\<exists>res. otto = Inr res \<and> \<bar>T2 (states res) - 614.30\<bar> < 0.005 \<and>
         eta_theory res = 1 - 6 powr (- 0.4) \<and> \<bar>eta_theory res - 0.5116\<bar> < 0.00005"
proof -
  define x :: real where "x = 6 powr 0.4"
  from otto_main_value obtain res where
    res: "otto = Inr res" "T2 (states res) = 300 * x" "eta_theory res = 1 - 1 / x"
    unfolding x_def by blast
  have x: "2.04765 < x" "x < 2.04768"
    using six_powr_bounds by (simp_all add: x_def)
  have "\<bar>300 * x - 614.30\<bar> < 0.005"
    using x unfolding abs_less_iff by simp
  then have a: "\<bar>T2 (states res) - 614.30\<bar> < 0.005"
    by (simp only: res(2))
  have "1 / x < 1 / 2.04765"
    using x by (intro divide_strict_left_mono) simp_all
  moreover have "1 / 2.04768 < 1 / x"
    using x by (intro divide_strict_left_mono) simp_all
  ultimately have "\<bar>1 - 1 / x - 0.5116\<bar> < 0.00005"
    unfolding abs_less_iff by simp
  then have c: "\<bar>eta_theory res - 0.5116\<bar> < 0.00005"
    by (simp only: res(3))
  have "(6::real) powr (- 0.4) = 1 / x"
    unfolding x_def by (rule powr_minus_divide)
  then have b: "eta_theory res = 1 - 6 powr (- 0.4)"
    by (simp only: res(3))
  from res(1) a b c show ?thesis
    by blast
qed

section \<open>The boundary \<open>r = 1\<close>\<close>

text \<open>
  With \<open>r = 1\<close> the two specific volumes are equal, and the division for the mean
  effective pressure raises: at the defaults with \<open>r = 1\<close> there is no result, so no
  value of \<open>eta_theory\<close> either.
\<close>

theorem otto_r_one_raises:
  "otto_cycle 300 101325 1 2400 1.4 = Inl ZeroDivisionError"
  by (simp add: otto_cycle_pos)

text \<open>
  C4, as the code has it: for \<open>r = 1\<close>, \<open>gamma > 1\<close> and positive \<open>T1\<close>, \<open>P1\<close>, \<open>T3\<close>, the
  statement that computes \<open>eta_theory\<close> divides by \<open>1^(gamma - 1) = 1\<close> and gives 0, but
  \<^verbatim>\<open>otto_cycle\<close> as a whole raises \<^verbatim>\<open>ZeroDivisionError\<close> and returns nothing.
\<close>

theorem otto_r_one:
  assumes "1 < gamma" and "0 < t1" and "0 < p1" and "0 < t3"
  shows "eta_theory_line 1 gamma = Inr 0 \<and>
         otto_cycle t1 p1 1 t3 gamma = Inl ZeroDivisionError"
  by (simp add: eta_theory_line_pos otto_cycle_pos)

theorem otto_r_one_witness:
  "eta_theory_line 1 1.4 = Inr 0 \<and> otto_cycle 300 101325 1 2400 1.4 = Inl ZeroDivisionError"
  using otto_r_one [of "1.4" 300 101325 2400] by simp

section \<open>Isentropic compression\<close>



section \<open>Divisions by zero\<close>




section \<open>The closed-form efficiency as a function of \<open>r\<close> and \<open>gamma\<close>\<close>



text \<open>
  C8: two results of \<^verbatim>\<open>otto_cycle\<close> for the same \<open>r\<close> and \<open>gamma\<close>, whatever the
  temperatures \<open>T1\<close>, \<open>T3\<close> and the pressure \<open>P1\<close> of the two calls, have the same
  \<open>eta_theory\<close>.
\<close>

theorem eta_theory_noninterference:
  assumes "otto_cycle t1 p1 r t3 gamma = Inr a"
    and "otto_cycle t1' p1' r t3' gamma = Inr b"
  shows "eta_theory a = eta_theory b"
  using otto_cycle_eta_theory_line [OF assms(1)] otto_cycle_eta_theory_line [OF assms(2)]
  by simp

theorem eta_theory_noninterference_witness:
  "\<exists>a b. otto_cycle 300 101325 6 2400 1.4 = Inr a \<and>
         otto_cycle 350 200000 6 2500 1.4 = Inr b \<and> eta_theory a = eta_theory b"
proof -
  obtain a where a: "otto_cycle 300 101325 6 2400 1.4 = Inr a"
    using otto_defaults_return [of 6] by auto
  have "(6::real) powr 0.4 < 6" by (intro powr_below_base) simp_all
  then have "350 * 6 powr 0.4 < (2500::real)" by simp
  then obtain b where b: "otto_cycle 350 200000 6 2500 1.4 = Inr b"
    by (simp add: otto_cycle_pos)
  have "eta_theory a = eta_theory b"
    using eta_theory_noninterference [OF a b] .
  with a b show ?thesis by blast
qed

section \<open>The pressure after expansion\<close>

text \<open>
  C9: for \<open>T1 > 0\<close>, \<open>P1 > 0\<close>, \<open>r > 0\<close> and any \<open>gamma\<close>, every result of \<^verbatim>\<open>otto_cycle\<close>
  has \<open>P4 = P1 * r^(2 - gamma) * (T3 / T1)\<close>, that is \<open>P4 / P1 = r * (T4 / T1)\<close> and
  \<open>P4 / T4 = r * (P1 / T1)\<close>. A result exists only for \<open>r \<noteq> 1\<close>, so state 4 is never on
  the line of constant volume through state 1: \<open>P4 / T4 \<noteq> P1 / T1\<close>.
\<close>

theorem otto_P4:
  assumes "0 < t1" and "0 < p1" and "0 < r"
    and "otto_cycle t1 p1 r t3 gamma = Inr res"
  shows "P4 (states res) = p1 * r powr (2 - gamma) * (t3 / t1) \<and>
         P4 (states res) / P1 (states res) = r * (T4 (states res) / T1 (states res)) \<and>
         P4 (states res) / T4 (states res) = r * (P1 (states res) / T1 (states res)) \<and>
         r \<noteq> 1 \<and>
         P4 (states res) / T4 (states res) \<noteq> P1 (states res) / T1 (states res)"
proof -
  define c where "c = r powr (gamma - 1)"
  have c: "0 < c" using assms by (simp add: c_def)
  have g: "r powr gamma = r * c"
    using assms powr_add [of r 1 "gamma - 1"] by (simp add: c_def)
  have i: "r powr (1 - gamma) = 1 / c"
    using assms by (simp add: c_def powr_one_minus)
  have j: "r powr (2 - gamma) = r * (1 / c)"
    using assms powr_add [of r 1 "1 - gamma"] by (simp add: i)
  from assms(4) have ok: "t3 \<noteq> 0" "r \<noteq> 1"
    and res: "states res = \<lparr>T1 = t1, P1 = p1, T2 = t1 * c, P2 = p1 * (r * c),
                 T3 = t3, P3 = p1 * (r * c) * (t3 / (t1 * c)),
                 T4 = t3 * (1 / c),
                 P4 = p1 * (r * c) * (t3 / (t1 * c)) * (t3 * (1 / c) / t3)\<rparr>"
    by (auto simp: otto_cycle_pos [OF assms(3)] g i split: if_splits simp flip: c_def)
  have "p1 / t1 \<noteq> 0" using assms by simp
  then have ne: "r * (p1 / t1) \<noteq> p1 / t1" using ok by simp
  have r3: "p1 * (r * c) * (t3 / (t1 * c)) * (t3 * (1 / c) / t3) / (t3 * (1 / c)) = r * (p1 / t1)"
    using assms c ok by (simp add: field_simps)
  show ?thesis
    using assms c ok ne r3 unfolding res j
    by (simp add: field_simps)
qed

theorem otto_P4_witness:
  "\<exists>res. otto_cycle 300 101325 6 2400 1.4 = Inr res \<and>
     P4 (states res) = 101325 * 6 powr (2 - 1.4) * (2400 / 300) \<and>
     P4 (states res) / P1 (states res) = 6 * (T4 (states res) / T1 (states res)) \<and>
     P4 (states res) / T4 (states res) = 6 * (P1 (states res) / T1 (states res)) \<and>
     P4 (states res) / T4 (states res) \<noteq> P1 (states res) / T1 (states res)"
proof -
  obtain res where res: "otto_cycle 300 101325 6 2400 1.4 = Inr res"
    using otto_defaults_return [of 6] by auto
  have "0 < (300::real)" and "0 < (101325::real)" and "0 < (6::real)"
    by simp_all
  from otto_P4 [OF this res] res show ?thesis
    by blast
qed

section \<open>The Rankine sweep\<close>

text \<open>
  The efficiencies that \<^verbatim>\<open>approximate_rankine\<close> returns for the three boiler pressures of
  \<^verbatim>\<open>P_high_list\<close> are not increasing: the values are \<open>0.24913\<close>, \<open>0.24884\<close> and
  \<open>0.24855\<close>, each below the one before.
\<close>

theorem rankine_sweep_not_increasing:
  "map approximate_rankine P_high_list =
     [Inr (12659 / 50813, 151908 / 5, (340, 6859 / 20, 14418 / 5, 22477 / 10)),
      Inr (12689 / 50993, 152268 / 5, (340, 6879 / 20, 14468 / 5, 11276 / 5)),
      Inr (12719 / 51173, 152628 / 5, (340, 6899 / 20, 14518 / 5, 22627 / 10))]
   \<and> \<not> ((12659 / 50813 :: real) < 12689 / 50993 \<and> (12689 / 50993 :: real) < 12719 / 51173)"
  by (simp add: P_high_list_def approximate_rankine_sweep)

text \<open>
  C2, as the code has it: the efficiencies returned by \<^verbatim>\<open>approximate_rankine\<close> for the
  swept boiler pressures 3000, 4000 and 5000 kPa form a strictly decreasing sequence,
  efficiency(3000) > efficiency(4000) > efficiency(5000).
\<close>

theorem rankine_sweep_decreasing:
  "\<exists>e1 w1 s1 e2 w2 s2 e3 w3 s3.
     map approximate_rankine P_high_list = [Inr (e1, w1, s1), Inr (e2, w2, s2), Inr (e3, w3, s3)] \<and>
     e2 < e1 \<and> e3 < e2"
proof -
  have a: "(12689 / 50993 :: real) < 12659 / 50813"
    by simp
  have b: "(12719 / 51173 :: real) < 12689 / 50993"
    by simp
  have m: "map approximate_rankine P_high_list =
     [Inr (12659 / 50813, 151908 / 5, (340, 6859 / 20, 14418 / 5, 22477 / 10)),
      Inr (12689 / 50993, 152268 / 5, (340, 6879 / 20, 14468 / 5, 11276 / 5)),
      Inr (12719 / 51173, 152628 / 5, (340, 6899 / 20, 14518 / 5, 22627 / 10))]"
    by (simp add: P_high_list_def approximate_rankine_sweep)
  show ?thesis
    by (intro exI conjI, rule m, rule a, rule b)
qed



end
